theory Spec2Isabelle
  imports Main
begin

section \<open>Subscription controller of the support desk\<close>

text \<open>
  A shallow embedding of \<^verbatim>\<open>src/backend/controllers/subscriptionController.js\<close>:
  the four request handlers \<^verbatim>\<open>createCheckoutSession\<close>, \<^verbatim>\<open>webHook\<close>,
  \<^verbatim>\<open>cancelPayment\<close> and \<^verbatim>\<open>cancelSubscription\<close>, and the helper
  \<^verbatim>\<open>handleCreateSubscription\<close>. A handler is a function from a request and the
  state (the record stores, and the log of the calls made to them and to the payment
  processor) to an outcome and the state it leaves behind. The outcome is either the
  response sent or the error thrown; the state is returned in both cases, since what
  was written before a throw stays written.
\<close>

subsection \<open>JavaScript values\<close>

text \<open>
  Request bodies and processor objects are JSON documents. \<open>JUndefined\<close> is what
  reading a missing property yields. Numbers are integers here: the only numbers the
  handlers look at are Unix timestamps and the literals \<open>1\<close> and \<open>3\<close>.
\<close>

datatype json =
    JUndefined
  | JNull
  | JBool bool
  | JNum int
  | JStr string
  | JArr "json list"
  | JObj "(string \<times> json) list"

text \<open>The conversion to boolean made by \<^verbatim>\<open>x ? a : b\<close>, \<^verbatim>\<open>!x\<close> and \<^verbatim>\<open>x && y\<close>.\<close>

fun truthy :: "json \<Rightarrow> bool" where
  "truthy JUndefined = False"
| "truthy JNull = False"
| "truthy (JBool b) = b"
| "truthy (JNum n) = (n \<noteq> 0)"
| "truthy (JStr s) = (s \<noteq> [])"
| "truthy (JArr xs) = True"
| "truthy (JObj kvs) = True"

text \<open>
  The errors a handler can end with: \<open>HttpError c m\<close> is
  \<^verbatim>\<open>res.status(c); throw new Error(m)\<close>, and \<open>TypeError\<close> is what the
  runtime throws when a property of \<^verbatim>\<open>undefined\<close> or \<^verbatim>\<open>null\<close> is read.
\<close>

datatype error = HttpError nat string | TypeError

text \<open>
  \<open>field v k\<close> is \<^verbatim>\<open>v.k\<close> on a value that is neither \<^verbatim>\<open>undefined\<close> nor
  \<^verbatim>\<open>null\<close>: the property of an object, and \<^verbatim>\<open>undefined\<close> on a string, number,
  boolean or array (none of the property names the handlers read is defined on their
  prototypes). \<open>read_prop v k\<close> is \<^verbatim>\<open>v.k\<close> on any value.
\<close>

fun field :: "json \<Rightarrow> string \<Rightarrow> json" where
  "field (JObj kvs) k = (case map_of kvs k of None \<Rightarrow> JUndefined | Some v \<Rightarrow> v)"
| "field v k = JUndefined"

fun read_prop :: "json \<Rightarrow> string \<Rightarrow> error + json" where
  "read_prop JUndefined k = Inl TypeError"
| "read_prop JNull k = Inl TypeError"
| "read_prop v k = Inr (field v k)"

text \<open>The string a template literal \<^verbatim>\<open>`${v}`\<close> puts in place of a value.\<close>

definition digit :: "nat \<Rightarrow> char" where
  "digit d = char_of (48 + d)"

function string_of_nat :: "nat \<Rightarrow> string" where
  "string_of_nat n =
     (if n < 10 then [digit n] else string_of_nat (n div 10) @ [digit (n mod 10)])"
  by pat_completeness auto
termination
  by (relation "measure id") auto

declare string_of_nat.simps [simp del]

fun js_string :: "json \<Rightarrow> string" and js_join :: "json list \<Rightarrow> string" where
  "js_string JUndefined = ''undefined''"
| "js_string JNull = ''null''"
| "js_string (JBool b) = (if b then ''true'' else ''false'')"
| "js_string (JNum n) =
     (if n < 0 then ''-'' @ string_of_nat (nat (- n)) else string_of_nat (nat n))"
| "js_string (JStr s) = s"
| "js_string (JArr xs) = js_join xs"
| "js_string (JObj kvs) = ''[object Object]''"
| "js_join [] = ''''"
| "js_join [x] = (if x = JUndefined \<or> x = JNull then '''' else js_string x)"
| "js_join (x # y # ys) =
     (if x = JUndefined \<or> x = JNull then '''' else js_string x) @ '','' @ js_join (y # ys)"

subsection \<open>The record stores\<close>

text \<open>
  Modelled from the spec: the Mongoose models \<^verbatim>\<open>subscriptionModel\<close>,
  \<^verbatim>\<open>paymentLogModel\<close> and \<^verbatim>\<open>userModel\<close> are not part of the sources. The spec
  treats the persistence layer as a generic document store with the operations
  find-one-matching, create and update-matching, and lists the fields of the two
  records. A store is the list of its documents in insertion order, each with the
  identifier the store gave it, and the number of identifiers issued so far. A field
  that was never set holds \<open>JUndefined\<close>. A filter \<^verbatim>\<open>{f: v}\<close> matches the documents
  whose field \<open>f\<close> equals \<open>v\<close>, find-one-matching yields the first document that
  matches, and update-matching patches the first document that matches. Values are
  stored and compared as they are: the casts, defaults and validations of the schemas are
  not modelled, and a store call does not fail. Dates are integers, and the filter
  \<^verbatim>\<open>{endDate: {$gte: d}}\<close> compares them.
\<close>

record subscription =
  userId :: json
  subscriptionId :: json
  subscriptionStatus :: json
  startDate :: int
  endDate :: int
  paymentStatus :: json
  subscriptionType :: json
  customerId :: json
  priceId :: json

record paymentLog =
  log_userId :: json
  request :: json
  response :: json
  status :: json
  event :: json

record 'a store =
  docs :: "(string \<times> 'a) list"
  issued :: nat

text \<open>Identifiers are opaque strings; the \<open>n\<close>-th one issued is \<open>mk_oid n\<close>.\<close>

definition mk_oid :: "nat \<Rightarrow> string" where
  "mk_oid n = replicate (Suc n) (CHR ''o'')"

definition store_create :: "'a \<Rightarrow> 'a store \<Rightarrow> (string \<times> 'a) \<times> 'a store" where
  "store_create d s =
     (let doc = (mk_oid (issued s), d)
      in (doc, \<lparr>docs = docs s @ [doc], issued = Suc (issued s)\<rparr>))"

definition findOne :: "(string \<times> 'a \<Rightarrow> bool) \<Rightarrow> 'a store \<Rightarrow> (string \<times> 'a) option" where
  "findOne flt s = find flt (docs s)"

fun update_first :: "('a \<Rightarrow> bool) \<Rightarrow> ('a \<Rightarrow> 'a) \<Rightarrow> 'a list \<Rightarrow> 'a list" where
  "update_first flt f [] = []"
| "update_first flt f (x # xs) = (if flt x then f x # xs else x # update_first flt f xs)"

definition updateOne :: "(string \<times> 'a \<Rightarrow> bool) \<Rightarrow> ('a \<Rightarrow> 'a) \<Rightarrow> 'a store \<Rightarrow> 'a store" where
  "updateOne flt patch s = s\<lparr>docs := update_first flt (\<lambda>(i, d). (i, patch d)) (docs s)\<rparr>"

text \<open>The filter \<^verbatim>\<open>{_id: v}\<close>.\<close>

definition by_id :: "json \<Rightarrow> string \<times> 'a \<Rightarrow> bool" where
  "by_id v doc = (v = JStr (fst doc))"

text \<open>
  The store hands out fresh identifiers: no two documents share one, and every
  identifier in use was issued earlier.
\<close>

definition wf_store :: "'a store \<Rightarrow> bool" where
  "wf_store s =
     (distinct (map fst (docs s)) \<and> list_all (\<lambda>i. length i \<le> issued s) (map fst (docs s)))"

subsection \<open>The payment processor, requests and responses\<close>

text \<open>
  The processor is a remote service. What it answers is a parameter: the
  \<^verbatim>\<open>data\<close> array of the product list and the \<^verbatim>\<open>url\<close> of a created checkout
  session. Every awaited call to a store or to the processor is logged in the state, in
  the order the calls are made; a processor call is logged with its arguments.
\<close>

datatype call =
    UserFindById
  | SubscriptionFindOne
  | SubscriptionCreate
  | SubscriptionUpdateOne
  | PaymentLogCreate
  | PaymentLogUpdateOne
  | ProductsList
  | CheckoutSessionsCreate json
  | SubscriptionsUpdate json json

record processor =
  products_data :: "json list"
  session_url :: json

record state =
  subscriptions :: "subscription store"
  paymentLogs :: "paymentLog store"
  users :: "string list"
  calls :: "call list"

text \<open>
  \<open>body\<close> is \<^verbatim>\<open>req.body\<close>, the object the JSON body parser produced, and
  \<open>user\<close> is \<^verbatim>\<open>req.user._id\<close>, resolved by the authentication layer.
\<close>

record http_request =
  body :: "(string \<times> json) list"
  user :: string

text \<open>\<open>sent = JUndefined\<close> is the empty body of \<^verbatim>\<open>res.json()\<close>.\<close>

record http_response =
  statusCode :: nat
  sent :: json

subsection \<open>Actions\<close>

text \<open>
  An action is one awaited step of a handler: it reads and writes the state and either
  yields a value or throws. \<open>and_then m f\<close> runs \<open>m\<close> and continues with
  \<open>f\<close> on its value; after a throw nothing more runs, and the state stays as the
  throw found it.
\<close>

type_synonym 'a action = "state \<Rightarrow> (error + 'a) \<times> state"

definition done_with :: "'a \<Rightarrow> 'a action" where
  "done_with x st = (Inr x, st)"

definition throw :: "error \<Rightarrow> 'a action" where
  "throw e st = (Inl e, st)"

definition and_then :: "'a action \<Rightarrow> ('a \<Rightarrow> 'b action) \<Rightarrow> 'b action" where
  "and_then m f st = (case m st of (Inl e, st') \<Rightarrow> (Inl e, st') | (Inr x, st') \<Rightarrow> f x st')"

definition getp :: "json \<Rightarrow> string \<Rightarrow> json action" where
  "getp v k st = (read_prop v k, st)"

definition respond :: "nat \<Rightarrow> json \<Rightarrow> http_response action" where
  "respond c b = done_with \<lparr>statusCode = c, sent = b\<rparr>"

definition logged :: "call \<Rightarrow> state \<Rightarrow> state" where
  "logged c st = st\<lparr>calls := calls st @ [c]\<rparr>"

definition Subscription_create :: "subscription \<Rightarrow> (string \<times> subscription) action" where
  "Subscription_create d st =
     (let (doc, s) = store_create d (subscriptions st)
      in (Inr doc, logged SubscriptionCreate (st\<lparr>subscriptions := s\<rparr>)))"

definition Subscription_findOne ::
  "(string \<times> subscription \<Rightarrow> bool) \<Rightarrow> (string \<times> subscription) option action" where
  "Subscription_findOne flt st =
     (Inr (findOne flt (subscriptions st)), logged SubscriptionFindOne st)"

definition Subscription_updateOne ::
  "(string \<times> subscription \<Rightarrow> bool) \<Rightarrow> (subscription \<Rightarrow> subscription) \<Rightarrow> unit action" where
  "Subscription_updateOne flt patch st =
     (Inr (),
      logged SubscriptionUpdateOne (st\<lparr>subscriptions := updateOne flt patch (subscriptions st)\<rparr>))"

definition PaymentLog_create :: "paymentLog \<Rightarrow> (string \<times> paymentLog) action" where
  "PaymentLog_create d st =
     (let (doc, s) = store_create d (paymentLogs st)
      in (Inr doc, logged PaymentLogCreate (st\<lparr>paymentLogs := s\<rparr>)))"

definition PaymentLog_updateOne ::
  "(string \<times> paymentLog \<Rightarrow> bool) \<Rightarrow> (paymentLog \<Rightarrow> paymentLog) \<Rightarrow> unit action" where
  "PaymentLog_updateOne flt patch st =
     (Inr (),
      logged PaymentLogUpdateOne (st\<lparr>paymentLogs := updateOne flt patch (paymentLogs st)\<rparr>))"

definition User_findById :: "string \<Rightarrow> string option action" where
  "User_findById i st =
     (Inr (if i \<in> set (users st) then Some i else None), logged UserFindById st)"

text \<open>A call to the processor, and the answer it gives.\<close>

definition stripe :: "call \<Rightarrow> 'a \<Rightarrow> 'a action" where
  "stripe c answer st = (Inr answer, logged c st)"

subsection \<open>handleCreateSubscription\<close>

text \<open>
  Lines 8 to 20. \<^verbatim>\<open>changeUnixTimestampFormat\<close> comes from \<^verbatim>\<open>../common\<close>, which
  is not part of the sources; it is the parameter \<open>fmt\<close>, from a timestamp of the
  processor to a date of the store. The first property read of the object literal is
  \<^verbatim>\<open>subData.metadata.userId\<close>; once it has succeeded, \<^verbatim>\<open>subData\<close> and its
  \<^verbatim>\<open>metadata\<close> are values whose properties can be read.
\<close>

definition handleCreateSubscription ::
  "(json \<Rightarrow> int) \<Rightarrow> json \<Rightarrow> json \<Rightarrow> (string \<times> subscription) action" where
  "handleCreateSubscription fmt subData subType =
     and_then (getp subData ''metadata'') (\<lambda>metadata.
     and_then (getp metadata ''userId'') (\<lambda>uid.
       Subscription_create
         \<lparr>userId = uid,
          subscriptionId = field subData ''id'',
          subscriptionStatus = field subData ''status'',
          startDate = fmt (field subData ''created''),
          endDate = fmt (field subData ''current_period_end''),
          paymentStatus = JStr ''complete'',
          subscriptionType = subType,
          customerId = field subData ''customer'',
          priceId = field metadata ''priceId''\<rparr>))"

subsection \<open>webHook\<close>

text \<open>
  Lines 111 to 180. \<open>invoice_types\<close> and \<open>metadata_types\<close> are the two families
  of event types of lines 123 to 137, which say where the user identifier is read.
\<close>

definition invoice_types :: "json list" where
  "invoice_types =
     [JStr ''invoice.payment_succeeded'', JStr ''invoice.updated'', JStr ''invoice.created'']"

definition metadata_types :: "json list" where
  "metadata_types =
     [JStr ''customer.subscription.created'', JStr ''customer.subscription.updated'',
      JStr ''checkout.session.completed'', JStr ''payment_intent.succeeded'',
      JStr ''payment_intent.created'']"

text \<open>The status of line 118 and of the payment log written at line 141.\<close>

definition derived_status :: "json \<Rightarrow> json" where
  "derived_status object =
     (if truthy object \<and> truthy (field object ''status'') then field object ''status''
      else JStr ''NO-STATUS'')"

text \<open>The filter of line 151 and the patches of lines 158 and 169.\<close>

definition incomplete_with :: "json \<Rightarrow> string \<times> subscription \<Rightarrow> bool" where
  "incomplete_with sid doc =
     (subscriptionId (snd doc) = sid \<and> subscriptionStatus (snd doc) = JStr ''incomplete'')"

definition activate :: "subscription \<Rightarrow> subscription" where
  "activate d = d\<lparr>subscriptionStatus := JStr ''active'', subscriptionType := JStr ''new''\<rparr>"

definition renewal_status :: "json \<Rightarrow> json" where
  "renewal_status s = (if s = JStr ''active'' then JStr ''success'' else s)"

definition renewal_patch :: "json \<Rightarrow> json \<Rightarrow> json \<Rightarrow> paymentLog \<Rightarrow> paymentLog" where
  "renewal_patch params st ty d = d\<lparr>response := params, status := renewal_status st, event := ty\<rparr>"

text \<open>
  The handler runs five steps in a row. \<open>attach_user\<close> is lines 122 to 137,
  \<open>log_event\<close> lines 139 to 142, \<open>on_created\<close> lines 144 to 148 and
  \<open>on_updated\<close> lines 149 to 178; line 179 answers.
\<close>

definition attach_user :: "json \<Rightarrow> json \<Rightarrow> paymentLog \<Rightarrow> paymentLog action" where
  "attach_user type object createObj =
     (if type \<in> set invoice_types then
        and_then (getp object ''subscription_details'') (\<lambda>details.
        and_then (getp details ''userId'') (\<lambda>uid.
          done_with (createObj\<lparr>log_userId := uid\<rparr>)))
      else if type \<in> set metadata_types then
        and_then (getp object ''metadata'') (\<lambda>metadata.
        and_then (getp metadata ''userId'') (\<lambda>uid.
          done_with (createObj\<lparr>log_userId := uid\<rparr>)))
      else done_with createObj)"

definition log_event :: "json \<Rightarrow> paymentLog \<Rightarrow> unit action" where
  "log_event type createObj =
     (if type \<noteq> JStr ''charge.succeeded'' \<and> type \<noteq> JStr ''payment_method.attached'' then
        and_then (PaymentLog_create createObj) (\<lambda>_. done_with ())
      else done_with ())"

definition on_created :: "(json \<Rightarrow> int) \<Rightarrow> json \<Rightarrow> json \<Rightarrow> unit action" where
  "on_created fmt type object =
     (if type = JStr ''customer.subscription.created'' then
        and_then (getp object ''status'') (\<lambda>st.
        and_then (handleCreateSubscription fmt object st) (\<lambda>_. done_with ()))
      else done_with ())"

definition on_updated :: "(json \<Rightarrow> int) \<Rightarrow> json \<Rightarrow> json \<Rightarrow> json \<Rightarrow> unit action" where
  "on_updated fmt params type object =
     (if type = JStr ''customer.subscription.updated'' then
        and_then (getp object ''id'') (\<lambda>sid.
        and_then (Subscription_findOne (incomplete_with sid)) (\<lambda>sub.
          case sub of
            Some found \<Rightarrow> Subscription_updateOne (by_id (JStr (fst found))) activate
          | None \<Rightarrow>
              and_then (getp object ''cancel_at_period_end'') (\<lambda>cancel.
                if \<not> truthy cancel then
                  and_then (handleCreateSubscription fmt object (JStr ''renewal'')) (\<lambda>_.
                  and_then (getp object ''metadata'') (\<lambda>metadata.
                  and_then (getp metadata ''paymentLog'') (\<lambda>logId.
                  and_then (getp object ''status'') (\<lambda>st.
                    PaymentLog_updateOne (by_id logId) (renewal_patch params st type)))))
                else done_with ())))
      else done_with ())"

definition webHook :: "(json \<Rightarrow> int) \<Rightarrow> http_request \<Rightarrow> http_response action" where
  "webHook fmt req =
     (let params = JObj (body req);
          type = field params ''type'';
          data = field params ''data''
      in
      and_then (getp data ''object'') (\<lambda>object.
      and_then
        (attach_user type object
           \<lparr>log_userId = JUndefined, request = JUndefined, response = params,
            status = derived_status object, event = type\<rparr>) (\<lambda>createObj.
      and_then (log_event type createObj) (\<lambda>_.
      and_then (on_created fmt type object) (\<lambda>_.
      and_then (on_updated fmt params type object) (\<lambda>_.
      respond 200 JUndefined))))))"

subsection \<open>createCheckoutSession\<close>

text \<open>
  Lines 25 to 106. \<open>now\<close> is the value of \<^verbatim>\<open>new Date()\<close> at line 56.
  \<open>or_empty v\<close> is \<^verbatim>\<open>v ? v : ""\<close>, and \<open>holds_current\<close> is the filter
  of lines 47 to 57.
\<close>

definition or_empty :: "json \<Rightarrow> json" where
  "or_empty v = (if truthy v then v else JStr [])"

definition current :: "int \<Rightarrow> subscription \<Rightarrow> bool" where
  "current now d =
     ((subscriptionStatus d = JStr ''active'' \<or> subscriptionStatus d = JStr ''trialing'')
      \<and> now \<le> endDate d)"

definition holds_current :: "string \<Rightarrow> int \<Rightarrow> string \<times> subscription \<Rightarrow> bool" where
  "holds_current uid now doc = (userId (snd doc) = JStr uid \<and> current now (snd doc))"

definition trial_fields :: "(string \<times> json) list" where
  "trial_fields =
     [(''trial_settings'',
        JObj [(''end_behavior'', JObj [(''missing_payment_method'', JStr ''cancel'')])]),
      (''trial_period_days'', JNum 3)]"

definition createCheckoutSession ::
  "processor \<Rightarrow> int \<Rightarrow> http_request \<Rightarrow> http_response action" where
  "createCheckoutSession answers now req =
     (let params = JObj (body req);
          type = or_empty (field params ''type'');
          successUrl = or_empty (field params ''successUrl'');
          cancelUrl = or_empty (field params ''cancelUrl'')
      in
      if \<not> truthy successUrl \<or> \<not> truthy cancelUrl then
        throw (HttpError 400 ''Please pass required all parameters.'')
      else if truthy type \<and> type \<noteq> JStr ''trial'' then
        throw (HttpError 400 ''Please pass valid type'')
      else
        and_then (User_findById (user req)) (\<lambda>found.
        if found = None then throw (HttpError 401 ''User not found.'')
        else
          and_then (Subscription_findOne (holds_current (user req) now)) (\<lambda>activeSub.
          if activeSub \<noteq> None then throw (HttpError 401 ''Subscription already exist.'')
          else
            and_then (stripe ProductsList (products_data answers)) (\<lambda>products.
            case products of
              [] \<Rightarrow> throw (HttpError 401 ''Plan not found.'')
            | product # _ \<Rightarrow>
                and_then (getp product ''default_price'') (\<lambda>price.
                let reqObj = JObj [(''price'', price), (''quantity'', JNum 1)] in
                and_then
                  (PaymentLog_create
                     \<lparr>log_userId = JStr (user req), request = reqObj, response = JUndefined,
                      status = JUndefined, event = JUndefined\<rparr>) (\<lambda>payment.
                let metaDataObj =
                      JObj [(''paymentLog'', JStr (fst payment)), (''userId'', JStr (user req)),
                            (''priceId'', price)];
                    subscription_data =
                      JObj ((''metadata'', metaDataObj) #
                            (if type = JStr ''trial'' then trial_fields else []))
                in
                and_then
                  (stripe
                     (CheckoutSessionsCreate
                        (JObj [(''payment_method_types'', JArr [JStr ''card'']),
                               (''line_items'', JArr [reqObj]),
                               (''mode'', JStr ''subscription''),
                               (''subscription_data'', subscription_data),
                               (''metadata'', metaDataObj),
                               (''success_url'', JStr (js_string successUrl)),
                               (''cancel_url'',
                                  JStr (js_string cancelUrl @ ''?id='' @ fst payment))]))
                     (session_url answers)) (\<lambda>url.
                respond 200 (JObj [(''url'', url)]))))))))"

subsection \<open>cancelPayment and cancelSubscription\<close>

text \<open>Lines 185 to 200.\<close>

definition cancel_patch :: "paymentLog \<Rightarrow> paymentLog" where
  "cancel_patch d = d\<lparr>status := JStr ''cancel'', event := JStr ''cancel''\<rparr>"

definition cancelPayment :: "http_request \<Rightarrow> http_response action" where
  "cancelPayment req =
     (let params = JObj (body req);
          paymentId = or_empty (field params ''paymentId'')
      in
      if \<not> truthy paymentId then
        throw (HttpError 400 ''Please pass required all parameters.'')
      else
        and_then (PaymentLog_updateOne (by_id paymentId) cancel_patch) (\<lambda>_.
        respond 200 (JObj [(''success'', JBool True)])))"

text \<open>Lines 205 to 237. \<open>owned_current\<close> is the filter of lines 213 to 225.\<close>

definition owned_current :: "string \<Rightarrow> json \<Rightarrow> int \<Rightarrow> string \<times> subscription \<Rightarrow> bool" where
  "owned_current uid sid now doc =
     (userId (snd doc) = JStr uid \<and> subscriptionId (snd doc) = sid \<and> current now (snd doc))"

definition cancelSubscription :: "int \<Rightarrow> http_request \<Rightarrow> http_response action" where
  "cancelSubscription now req =
     (let params = JObj (body req);
          subId = or_empty (field params ''subscriptionId'')
      in
      if \<not> truthy subId then
        throw (HttpError 400 ''Please pass required all parameters.'')
      else
        and_then (Subscription_findOne (owned_current (user req) subId now)) (\<lambda>sub.
        if sub = None then throw (HttpError 400 ''Subscription does not exist.'')
        else
          and_then
            (stripe
               (SubscriptionsUpdate subId (JObj [(''cancel_at_period_end'', JBool True)]))
               ()) (\<lambda>_.
          respond 200 (JObj [(''success'', JBool True)]))))"

subsection \<open>Vocabulary of the statements\<close>

text \<open>
  Where the spec calls a value of a request present, missing or absent, the statements
  read it as the handlers test it, with \<open>truthy\<close>: a missing property is
  \<^verbatim>\<open>undefined\<close>, which is not truthy, and the handlers treat \<^verbatim>\<open>null\<close>,
  \<^verbatim>\<open>false\<close>, \<^verbatim>\<open>0\<close> and the empty string in the same way.
\<close>

text \<open>
  \<open>event_type\<close> and \<open>event_object\<close> are the expressions \<^verbatim>\<open>type\<close> and
  \<^verbatim>\<open>data.object\<close> of \<^verbatim>\<open>webHook\<close>. A value is \<open>readable\<close> when reading a
  property of it does not throw. \<open>derives_user\<close> holds of the requests on which lines
  113 to 137 of \<^verbatim>\<open>webHook\<close> read no property of \<^verbatim>\<open>undefined\<close> or
  \<^verbatim>\<open>null\<close>: \<^verbatim>\<open>data\<close> is readable, and so are \<^verbatim>\<open>data.object\<close> and its
  \<^verbatim>\<open>subscription_details\<close> for the invoice types, or its \<^verbatim>\<open>metadata\<close> for the
  subscription, session and payment-intent types.
\<close>

definition event_type :: "http_request \<Rightarrow> json" where
  "event_type req = field (JObj (body req)) ''type''"

definition event_object :: "http_request \<Rightarrow> json" where
  "event_object req = field (field (JObj (body req)) ''data'') ''object''"

definition readable :: "json \<Rightarrow> bool" where
  "readable v = (v \<noteq> JUndefined \<and> v \<noteq> JNull)"

definition derives_user :: "http_request \<Rightarrow> bool" where
  "derives_user req =
     (readable (field (JObj (body req)) ''data'') \<and>
      (if event_type req \<in> set invoice_types then
         readable (event_object req) \<and>
         readable (field (event_object req) ''subscription_details'')
       else if event_type req \<in> set metadata_types then
         readable (event_object req) \<and> readable (field (event_object req) ''metadata'')
       else True))"

text \<open>
  A state is well formed when both record stores are, and an action \<open>keeps\<close> the
  stores well formed when it leaves them so, whether it yields or throws.
\<close>

definition wf_state :: "state \<Rightarrow> bool" where
  "wf_state st = (wf_store (subscriptions st) \<and> wf_store (paymentLogs st))"

definition keeps :: "'a action \<Rightarrow> bool" where
  "keeps m = (\<forall>st. wf_state st \<longrightarrow> wf_state (snd (m st)))"

text \<open>The response of line 179.\<close>

definition acknowledged :: http_response where
  "acknowledged = \<lparr>statusCode = 200, sent = JUndefined\<rparr>"

subsection \<open>Sample requests and states\<close>

text \<open>
  Concrete inputs on which the statements below are evaluated: a date conversion, the
  subscription object of a processor event with and without its \<^verbatim>\<open>metadata\<close>, the
  envelope around it, and three states of the stores.
\<close>

definition to_millis :: "json \<Rightarrow> int" where
  "to_millis v = (case v of JNum n \<Rightarrow> n * 1000 | _ \<Rightarrow> 0)"

definition sample_metadata :: json where
  "sample_metadata =
     JObj [(''userId'', JStr ''u1''), (''priceId'', JStr ''price_1''), (''paymentLog'', JStr ''o'')]"

definition bare_subscription :: "string \<Rightarrow> (string \<times> json) list" where
  "bare_subscription st =
     [(''id'', JStr ''sub_1''), (''status'', JStr st), (''created'', JNum 100),
      (''current_period_end'', JNum 200), (''customer'', JStr ''cus_1''),
      (''cancel_at_period_end'', JBool False)]"

definition sample_subscription :: "string \<Rightarrow> json" where
  "sample_subscription st = JObj (bare_subscription st @ [(''metadata'', sample_metadata)])"

definition envelope :: "string \<Rightarrow> json \<Rightarrow> http_request" where
  "envelope ty object =
     \<lparr>body = [(''type'', JStr ty), (''data'', JObj [(''object'', object)])], user = []\<rparr>"

definition sample_record :: "string \<Rightarrow> subscription" where
  "sample_record st =
     \<lparr>userId = JStr ''u1'', subscriptionId = JStr ''sub_1'', subscriptionStatus = JStr st,
      startDate = 100000, endDate = 200000, paymentStatus = JStr ''complete'',
      subscriptionType = JStr st, customerId = JStr ''cus_1'', priceId = JStr ''price_1''\<rparr>"

definition sample_log :: paymentLog where
  "sample_log =
     \<lparr>log_userId = JStr ''u1'',
      request = JObj [(''price'', JStr ''price_1''), (''quantity'', JNum 1)],
      response = JUndefined, status = JUndefined, event = JUndefined\<rparr>"

definition empty_state :: state where
  "empty_state =
     \<lparr>subscriptions = \<lparr>docs = [], issued = 0\<rparr>, paymentLogs = \<lparr>docs = [], issued = 0\<rparr>,
      users = [''u1'', ''u2''], calls = []\<rparr>"

definition checkout_state :: state where
  "checkout_state = empty_state\<lparr>paymentLogs := \<lparr>docs = [(''o'', sample_log)], issued = 1\<rparr>\<rparr>"

definition subscribed_state :: "string \<Rightarrow> state" where
  "subscribed_state st =
     checkout_state\<lparr>subscriptions := \<lparr>docs = [(''o'', sample_record st)], issued = 1\<rparr>\<rparr>"

definition two_records_state :: state where
  "two_records_state =
     checkout_state
       \<lparr>subscriptions :=
          \<lparr>docs = [(''o'', (sample_record ''active'')\<lparr>subscriptionId := JStr ''sub_0''\<rparr>),
                   (''oo'', sample_record ''incomplete'')],
           issued = 2\<rparr>\<rparr>"

definition invoice_object :: "(string \<times> json) list" where
  "invoice_object = [(''id'', JStr ''in_1''), (''status'', JStr ''draft'')]"

definition sample_answers :: processor where
  "sample_answers =
     \<lparr>products_data = [JObj [(''id'', JStr ''prod_1''), (''default_price'', JStr ''price_1'')]],
      session_url = JStr ''https://checkout.example/session''\<rparr>"

section \<open>Properties\<close>

subsection \<open>Reading properties and running actions\<close>

lemmas sample_defs = to_millis_def sample_metadata_def bare_subscription_def
  sample_subscription_def envelope_def sample_record_def sample_log_def empty_state_def
  checkout_state_def subscribed_state_def two_records_state_def invoice_object_def
  sample_answers_def

lemma read_prop_readable: "readable v \<Longrightarrow> read_prop v k = Inr (field v k)"
  by (cases v) (simp_all add: readable_def)

lemma read_prop_unreadable: "\<not> readable v \<Longrightarrow> read_prop v k = Inl TypeError"
  by (cases v) (simp_all add: readable_def)

lemma readable_field: "readable (field v k) \<Longrightarrow> readable v"
  by (cases v) (simp_all add: readable_def)

lemma truthy_or_empty: "truthy (or_empty v) = truthy v"
  by (simp add: or_empty_def)

lemma and_then_done: "and_then (done_with x) f = f x"
  by (rule ext) (simp add: and_then_def done_with_def)

lemma and_then_throw: "and_then (throw e) f = throw e"
  by (rule ext) (simp add: and_then_def throw_def)

lemma and_then_getp:
  "and_then (getp v k) f st = (if readable v then f (field v k) st else (Inl TypeError, st))"
  by (simp add: and_then_def getp_def read_prop_readable read_prop_unreadable)

lemma and_then_yields: "m st = (Inr x, st') \<Longrightarrow> and_then m f st = f x st'"
  by (simp add: and_then_def)

lemma and_then_fails: "m st = (Inl e, st') \<Longrightarrow> and_then m f st = (Inl e, st')"
  by (simp add: and_then_def)

lemma and_then_assoc: "and_then (and_then m f) g = and_then m (\<lambda>x. and_then (f x) g)"
  by (rule ext) (simp add: and_then_def split: prod.splits sum.splits)

lemma logged_fields:
  "subscriptions (logged c st) = subscriptions st"
  "paymentLogs (logged c st) = paymentLogs st"
  "users (logged c st) = users st"
  "calls (logged c st) = calls st @ [c]"
  by (simp_all add: logged_def)

lemma PaymentLog_create_run:
  "and_then (PaymentLog_create c) f st =
     f (mk_oid (issued (paymentLogs st)), c)
       (logged PaymentLogCreate
          (st\<lparr>paymentLogs :=
                \<lparr>docs = docs (paymentLogs st) @ [(mk_oid (issued (paymentLogs st)), c)],
                 issued = Suc (issued (paymentLogs st))\<rparr>\<rparr>))"
  by (simp add: and_then_def PaymentLog_create_def store_create_def Let_def)

lemma Subscription_create_run:
  "and_then (Subscription_create c) f st =
     f (mk_oid (issued (subscriptions st)), c)
       (logged SubscriptionCreate
          (st\<lparr>subscriptions :=
                \<lparr>docs = docs (subscriptions st) @ [(mk_oid (issued (subscriptions st)), c)],
                 issued = Suc (issued (subscriptions st))\<rparr>\<rparr>))"
  by (simp add: and_then_def Subscription_create_def store_create_def Let_def)

lemma Subscription_findOne_run:
  "and_then (Subscription_findOne flt) f st =
     f (findOne flt (subscriptions st)) (logged SubscriptionFindOne st)"
  by (simp add: and_then_def Subscription_findOne_def)

lemma Subscription_updateOne_run:
  "and_then (Subscription_updateOne flt p) f st =
     f () (logged SubscriptionUpdateOne
             (st\<lparr>subscriptions := updateOne flt p (subscriptions st)\<rparr>))"
  by (simp add: and_then_def Subscription_updateOne_def)

lemma PaymentLog_updateOne_run:
  "and_then (PaymentLog_updateOne flt p) f st =
     f () (logged PaymentLogUpdateOne (st\<lparr>paymentLogs := updateOne flt p (paymentLogs st)\<rparr>))"
  by (simp add: and_then_def PaymentLog_updateOne_def)

lemma User_findById_run:
  "and_then (User_findById i) f st =
     f (if i \<in> set (users st) then Some i else None) (logged UserFindById st)"
  by (simp add: and_then_def User_findById_def)

lemma stripe_run: "and_then (stripe c a) f st = f a (logged c st)"
  by (simp add: and_then_def stripe_def)

lemmas runs = and_then_assoc and_then_getp and_then_done PaymentLog_create_run
  Subscription_create_run Subscription_findOne_run Subscription_updateOne_run
  PaymentLog_updateOne_run logged_fields

subsection \<open>Finding and updating documents\<close>

lemma find_None_iff_no_match: "find flt xs = None \<longleftrightarrow> (\<forall>x \<in> set xs. \<not> flt x)"
  by (induction xs) auto

lemma update_first_by_id:
  "distinct (map fst xs) \<Longrightarrow>
   update_first (by_id v) (\<lambda>(i, d). (i, p d)) xs =
     map (\<lambda>doc. if by_id v doc then (fst doc, p (snd doc)) else doc) xs"
proof (induction xs)
  case Nil
  then show ?case by simp
next
  case (Cons x xs)
  show ?case
  proof (cases "by_id v x")
    case True
    have "\<forall>doc \<in> set xs. \<not> by_id v doc"
      using Cons.prems True by (auto simp: by_id_def)
    then have "map (\<lambda>doc. if by_id v doc then (fst doc, p (snd doc)) else doc) xs = xs"
      by (induction xs) auto
    with True show ?thesis by (simp add: case_prod_beta)
  next
    case False
    with Cons show ?thesis by simp
  qed
qed

lemma update_first_by_id_snoc:
  assumes "distinct (map fst xs)" and "i \<notin> fst ` set xs"
  shows "update_first (by_id v) (\<lambda>(j, d). (j, p d)) (xs @ [(i, c)]) =
     map (\<lambda>doc. if by_id v doc then (fst doc, p (snd doc)) else doc) (xs @ [(i, c)])"
  using assms by (intro update_first_by_id) simp

lemma update_first_ids: "map fst (update_first flt (\<lambda>(i, d). (i, p d)) xs) = map fst xs"
  by (induction xs) (auto simp: case_prod_beta)


lemma wf_store_fresh:
  assumes "wf_store s"
  shows "mk_oid (issued s) \<notin> fst ` set (docs s)"
proof
  assume "mk_oid (issued s) \<in> fst ` set (docs s)"
  with assms have "length (mk_oid (issued s)) \<le> issued s"
    unfolding wf_store_def list_all_iff by auto
  then show False by (simp add: mk_oid_def)
qed

lemma wf_store_distinct: "wf_store s \<Longrightarrow> distinct (map fst (docs s))"
  by (simp add: wf_store_def)

text \<open>Creating a document keeps a store well formed.\<close>

lemma wf_store_create: "wf_store s \<Longrightarrow> wf_store (snd (store_create d s))"
  using wf_store_fresh [of s]
  by (auto simp: wf_store_def store_create_def Let_def list_all_iff mk_oid_def image_iff
      intro: le_SucI)

lemma wf_store_updateOne: "wf_store s \<Longrightarrow> wf_store (updateOne flt p s)"
  by (simp add: wf_store_def updateOne_def update_first_ids)

subsection \<open>Every handler keeps the stores well formed\<close>

text \<open>
  The theorems below that speak of the document with a given identifier assume a well
  formed store. The assumption holds of every state the handlers can reach from one
  that is well formed, such as the empty one: each handler keeps both stores well formed,
  whatever the request and whether it answers or throws.
\<close>

lemma keeps_done: "keeps (done_with x)"
  by (simp add: keeps_def done_with_def)

lemma keeps_throw: "keeps (throw e)"
  by (simp add: keeps_def throw_def)

lemma keeps_getp: "keeps (getp v k)"
  by (simp add: keeps_def getp_def)

lemma keeps_respond: "keeps (respond c b)"
  by (simp add: respond_def keeps_done)

lemma keeps_and_then:
  assumes "keeps m" and "\<And>x. keeps (f x)"
  shows "keeps (and_then m f)"
  unfolding keeps_def
proof (intro allI impI)
  fix st
  assume w: "wf_state st"
  obtain r st' where m: "m st = (r, st')"
    by (cases "m st")
  with assms(1) w have w': "wf_state st'"
    by (auto simp: keeps_def)
  show "wf_state (snd (and_then m f st))"
  proof (cases r)
    case (Inl e)
    with m w' show ?thesis by (simp add: and_then_def)
  next
    case (Inr x)
    with m w' assms(2) [of x] show ?thesis by (simp add: and_then_def keeps_def)
  qed
qed

lemma keeps_if: "keeps a \<Longrightarrow> keeps b \<Longrightarrow> keeps (if c then a else b)"
  by simp

lemma keeps_option:
  "keeps a \<Longrightarrow> (\<And>x. keeps (b x)) \<Longrightarrow> keeps (case v of None \<Rightarrow> a | Some x \<Rightarrow> b x)"
  by (cases v) simp_all

lemma keeps_list:
  "keeps a \<Longrightarrow> (\<And>x xs. keeps (b x xs)) \<Longrightarrow> keeps (case v of [] \<Rightarrow> a | x # xs \<Rightarrow> b x xs)"
  by (cases v) simp_all

lemma keeps_Subscription_create: "keeps (Subscription_create d)"
  using wf_store_create [of _ d]
  by (auto simp: keeps_def wf_state_def Subscription_create_def logged_def split: prod.splits)
    (metis snd_conv)

lemma keeps_PaymentLog_create: "keeps (PaymentLog_create d)"
  using wf_store_create [of _ d]
  by (auto simp: keeps_def wf_state_def PaymentLog_create_def logged_def split: prod.splits)
    (metis snd_conv)

lemma keeps_Subscription_findOne: "keeps (Subscription_findOne flt)"
  by (simp add: keeps_def wf_state_def Subscription_findOne_def logged_def)

lemma keeps_Subscription_updateOne: "keeps (Subscription_updateOne flt p)"
  by (simp add: keeps_def wf_state_def Subscription_updateOne_def logged_def wf_store_updateOne)

lemma keeps_PaymentLog_updateOne: "keeps (PaymentLog_updateOne flt p)"
  by (simp add: keeps_def wf_state_def PaymentLog_updateOne_def logged_def wf_store_updateOne)

lemma keeps_User_findById: "keeps (User_findById i)"
  by (simp add: keeps_def wf_state_def User_findById_def logged_def)

lemma keeps_stripe: "keeps (stripe c a)"
  by (simp add: keeps_def wf_state_def stripe_def logged_def)

lemmas keeps_rules = keeps_and_then keeps_if keeps_option keeps_list keeps_done keeps_throw
  keeps_getp keeps_respond keeps_Subscription_create keeps_PaymentLog_create
  keeps_Subscription_findOne keeps_Subscription_updateOne keeps_PaymentLog_updateOne
  keeps_User_findById keeps_stripe

lemma keeps_handleCreateSubscription: "keeps (handleCreateSubscription fmt subData subType)"
  unfolding handleCreateSubscription_def by (intro keeps_rules)

lemma keeps_webHook: "keeps (webHook fmt req)"
  unfolding webHook_def Let_def attach_user_def log_event_def on_created_def on_updated_def
  by (intro keeps_rules keeps_handleCreateSubscription)

lemma keeps_createCheckoutSession: "keeps (createCheckoutSession answers now req)"
  unfolding createCheckoutSession_def Let_def
  by (intro keeps_rules)

lemma keeps_cancelPayment: "keeps (cancelPayment req)"
  unfolding cancelPayment_def Let_def by (intro keeps_rules)

lemma keeps_cancelSubscription: "keeps (cancelSubscription now req)"
  unfolding cancelSubscription_def Let_def by (intro keeps_rules)

lemma wf_state_empty: "wf_state empty_state"
  by (simp add: wf_state_def wf_store_def empty_state_def)

subsection \<open>The steps of webHook\<close>

lemma types_created:
  "JStr ''customer.subscription.created'' \<notin> set invoice_types"
  "JStr ''customer.subscription.created'' \<in> set metadata_types"
  by (simp_all add: invoice_types_def metadata_types_def)

lemma types_updated:
  "JStr ''customer.subscription.updated'' \<notin> set invoice_types"
  "JStr ''customer.subscription.updated'' \<in> set metadata_types"
  by (simp_all add: invoice_types_def metadata_types_def)

lemma attach_user_ok:
  assumes "derives_user req"
  shows "\<exists>uid. attach_user (event_type req) (event_object req) c st =
           (Inr (c\<lparr>log_userId := uid\<rparr>), st)"
proof -
  have "attach_user (event_type req) (event_object req) c st =
          (Inr (c\<lparr>log_userId :=
                   (if event_type req \<in> set invoice_types then
                      field (field (event_object req) ''subscription_details'') ''userId''
                    else if event_type req \<in> set metadata_types then
                      field (field (event_object req) ''metadata'') ''userId''
                    else log_userId c)\<rparr>), st)"
    using assms
    by (auto simp: attach_user_def derives_user_def and_then_getp and_then_done done_with_def)
  then show ?thesis by blast
qed

lemma attach_user_fails:
  assumes "\<not> derives_user req" and "readable (field (JObj (body req)) ''data'')"
  shows "attach_user (event_type req) (event_object req) c st = (Inl TypeError, st)"
  using assms
  by (auto simp: attach_user_def derives_user_def and_then_getp split: if_splits)

lemma webHook_throws:
  assumes "\<not> derives_user req"
  shows "webHook fmt req st = (Inl TypeError, st)"
proof (cases "readable (field (JObj (body req)) ''data'')")
  case True
  with assms show ?thesis
    unfolding webHook_def Let_def
    by (simp add: and_then_getp
        and_then_fails [OF attach_user_fails [unfolded event_type_def event_object_def]]
        del: field.simps)
next
  case False
  then show ?thesis
    unfolding webHook_def Let_def by (simp add: and_then_getp del: field.simps)
qed

lemma log_event_run:
  "\<exists>st'. log_event type c st = (Inr (), st') \<and> subscriptions st' = subscriptions st"
  unfolding log_event_def by (auto simp add: runs done_with_def)

lemma on_created_run:
  assumes "type = JStr ''customer.subscription.created'' \<Longrightarrow>
           readable object \<and> readable (field object ''metadata'')"
  shows "\<exists>st'. on_created fmt type object st = (Inr (), st') \<and> paymentLogs st' = paymentLogs st"
  using assms unfolding on_created_def handleCreateSubscription_def
  by (auto simp add: runs done_with_def)

lemma on_updated_run:
  assumes "type = JStr ''customer.subscription.updated'' \<Longrightarrow>
           readable object \<and> readable (field object ''metadata'')"
  shows "\<exists>st'. on_updated fmt params type object st = (Inr (), st') \<and>
           (paymentLogs st' = paymentLogs st \<or>
            paymentLogs st' =
              updateOne (by_id (field (field object ''metadata'') ''paymentLog''))
                (renewal_patch params (field object ''status'') type) (paymentLogs st))"
proof (cases "type = JStr ''customer.subscription.updated''")
  case False
  then show ?thesis by (simp add: on_updated_def done_with_def)
next
  case True
  with assms have r: "readable object" "readable (field object ''metadata'')"
    by simp_all
  show ?thesis
  proof (cases "findOne (incomplete_with (field object ''id'')) (subscriptions st)")
    case (Some found)
    with True r show ?thesis
      by (simp add: on_updated_def runs Subscription_updateOne_def)
  next
    case None
    with True r show ?thesis
      by (simp add: on_updated_def handleCreateSubscription_def runs done_with_def
          PaymentLog_updateOne_def)
  qed
qed

text \<open>
  An event that derives its user is answered. The payment logs it leaves are those
  \<open>log_event\<close> left, up to the patch of a renewal.
\<close>

lemma webHook_runs:
  assumes "derives_user req"
  shows "\<exists>c st1 st3.
           log_event (event_type req) c st = (Inr (), st1) \<and>
           response c = JObj (body req) \<and>
           status c = derived_status (event_object req) \<and>
           event c = event_type req \<and>
           (paymentLogs st3 = paymentLogs st1 \<or>
            paymentLogs st3 =
              updateOne (by_id (field (field (event_object req) ''metadata'') ''paymentLog''))
                (renewal_patch (JObj (body req)) (field (event_object req) ''status'')
                   (event_type req))
                (paymentLogs st1)) \<and>
           webHook fmt req st = (Inr acknowledged, st3)"
proof -
  let ?params = "JObj (body req)"
  let ?c = "\<lparr>log_userId = JUndefined, request = JUndefined, response = ?params,
            status = derived_status (event_object req), event = event_type req\<rparr>"
  from assms have data: "readable (field ?params ''data'')"
    by (simp add: derives_user_def)
  from assms have upd: "event_type req = JStr ''customer.subscription.updated'' \<Longrightarrow>
      readable (event_object req) \<and> readable (field (event_object req) ''metadata'')"
    and cre: "event_type req = JStr ''customer.subscription.created'' \<Longrightarrow>
      readable (event_object req) \<and> readable (field (event_object req) ''metadata'')"
    by (simp_all add: derives_user_def types_created types_updated)
  obtain uid where
    a: "attach_user (event_type req) (event_object req) ?c st = (Inr (?c\<lparr>log_userId := uid\<rparr>), st)"
    using attach_user_ok [OF assms] by blast
  let ?c' = "?c\<lparr>log_userId := uid\<rparr>"
  obtain st1 where l: "log_event (event_type req) ?c' st = (Inr (), st1)"
    using log_event_run by blast
  obtain st2 where c: "on_created fmt (event_type req) (event_object req) st1 = (Inr (), st2)"
    and c1: "paymentLogs st2 = paymentLogs st1"
    using on_created_run [OF cre] by blast
  obtain st3 where
    u: "on_updated fmt ?params (event_type req) (event_object req) st2 = (Inr (), st3)"
    and u1: "paymentLogs st3 = paymentLogs st2 \<or>
             paymentLogs st3 =
               updateOne (by_id (field (field (event_object req) ''metadata'') ''paymentLog''))
                 (renewal_patch ?params (field (event_object req) ''status'') (event_type req))
                 (paymentLogs st2)"
    using on_updated_run [OF upd] by blast
  have run: "webHook fmt req st = (Inr acknowledged, st3)"
    unfolding webHook_def Let_def
    using data a l c u
    by (simp add: and_then_getp and_then_yields event_type_def event_object_def respond_def
        done_with_def acknowledged_def del: field.simps)
  have "response ?c' = JObj (body req)" "status ?c' = derived_status (event_object req)"
    "event ?c' = event_type req"
    by simp_all
  with l u1 run show ?thesis unfolding c1 by blast
qed

text \<open>
  The run of an update event that finds an incomplete record, and the run of one that
  finds none and is not a cancellation.
\<close>

lemma webHook_activates:
  assumes "event_type req = JStr ''customer.subscription.updated''"
    and "readable (event_object req)"
    and "readable (field (event_object req) ''metadata'')"
    and "findOne (incomplete_with (field (event_object req) ''id'')) (subscriptions st) = Some found"
    and "wf_store (subscriptions st)"
  shows "fst (webHook fmt req st) = Inr acknowledged \<and>
         docs (subscriptions (snd (webHook fmt req st))) =
           map (\<lambda>doc. if fst doc = fst found then (fst doc, activate (snd doc)) else doc)
               (docs (subscriptions st))"
proof -
  have data: "readable (field (JObj (body req)) ''data'')"
    using assms(2) unfolding event_object_def by (rule readable_field)
  have d: "distinct (map fst (docs (subscriptions st)))"
    using assms(5) by (rule wf_store_distinct)
  show ?thesis
    using assms(1-4) data
    unfolding webHook_def Let_def event_type_def event_object_def attach_user_def log_event_def
      on_created_def on_updated_def handleCreateSubscription_def acknowledged_def respond_def
    by (simp add: runs types_updated done_with_def updateOne_def update_first_by_id [OF d]
        by_id_def del: field.simps)
qed



subsection \<open>Subscription update events that complete a subscription\<close>

text \<open>
  The statement of the spec, that every update event whose subscription id matches an
  incomplete record activates that record, fails on an event whose subscription object
  has no \<^verbatim>\<open>metadata\<close>: line 136 throws before any store is touched, and the record
  stays incomplete.
\<close>

theorem updated_without_metadata_keeps_incomplete:
  "event_type (envelope ''customer.subscription.updated'' (JObj (bare_subscription ''active''))) =
     JStr ''customer.subscription.updated'' \<and>
   findOne
     (incomplete_with
        (field (event_object
           (envelope ''customer.subscription.updated'' (JObj (bare_subscription ''active''))))
           ''id''))
     (subscriptions (subscribed_state ''incomplete'')) =
     Some (''o'', sample_record ''incomplete'') \<and>
   webHook to_millis
     (envelope ''customer.subscription.updated'' (JObj (bare_subscription ''active'')))
     (subscribed_state ''incomplete'') =
     (Inl TypeError, subscribed_state ''incomplete'')"
proof -
  let ?req = "envelope ''customer.subscription.updated'' (JObj (bare_subscription ''active''))"
  have "\<not> derives_user ?req"
    by (simp add: derives_user_def event_type_def event_object_def envelope_def
        bare_subscription_def invoice_types_def metadata_types_def readable_def)
  then have "webHook to_millis ?req (subscribed_state ''incomplete'') =
      (Inl TypeError, subscribed_state ''incomplete'')"
    by (rule webHook_throws)
  then show ?thesis
    by (simp add: event_type_def event_object_def envelope_def bare_subscription_def
        subscribed_state_def checkout_state_def empty_state_def findOne_def incomplete_with_def
        sample_record_def)
qed

text \<open>
  C1, amended. For every \<^verbatim>\<open>customer.subscription.updated\<close> event whose subscription
  object carries a \<^verbatim>\<open>metadata\<close> value other than \<^verbatim>\<open>undefined\<close> and \<^verbatim>\<open>null\<close>, and
  whose subscription id matches a record with status \<^verbatim>\<open>incomplete\<close>: the handler
  answers 200 with an empty body, the first such record, \<open>found\<close>, gets status
  \<^verbatim>\<open>active\<close> and type \<^verbatim>\<open>new\<close>, and the store holds the same identifiers as
  before, so no record is created. The store hands out distinct identifiers.
\<close>

theorem updated_incomplete_becomes_active:
  assumes "event_type req = JStr ''customer.subscription.updated''"
    and "readable (event_object req)"
    and "readable (field (event_object req) ''metadata'')"
    and "findOne (incomplete_with (field (event_object req) ''id'')) (subscriptions st) =
           Some found"
    and "wf_store (subscriptions st)"
  shows "fst (webHook fmt req st) = Inr \<lparr>statusCode = 200, sent = JUndefined\<rparr> \<and>
         docs (subscriptions (snd (webHook fmt req st))) =
           map (\<lambda>doc. if fst doc = fst found
                       then (fst doc, (snd doc)\<lparr>subscriptionStatus := JStr ''active'',
                                               subscriptionType := JStr ''new''\<rparr>)
                       else doc)
               (docs (subscriptions st)) \<and>
         map fst (docs (subscriptions (snd (webHook fmt req st)))) =
           map fst (docs (subscriptions st)) \<and>
         found \<in> set (docs (subscriptions st)) \<and>
         subscriptionId (snd found) = field (event_object req) ''id'' \<and>
         subscriptionStatus (snd found) = JStr ''incomplete''"
proof -
  note run = webHook_activates [OF assms, of fmt]
  have "found \<in> set (docs (subscriptions st)) \<and>
        incomplete_with (field (event_object req) ''id'') found"
    using assms(4) unfolding findOne_def by (auto simp: find_Some_iff)
  moreover have "map fst (docs (subscriptions (snd (webHook fmt req st)))) =
      map fst (docs (subscriptions st))"
    using run by (simp add: comp_def if_distrib [of fst] cong: if_cong)
  ultimately show ?thesis
    using run by (simp add: acknowledged_def activate_def incomplete_with_def)
qed

text \<open>On the sample store, the update event for \<^verbatim>\<open>sub_1\<close> activates its record.\<close>

theorem updated_incomplete_becomes_active_witness:
  "event_type (envelope ''customer.subscription.updated'' (sample_subscription ''active'')) =
     JStr ''customer.subscription.updated'' \<and>
   readable (event_object (envelope ''customer.subscription.updated'' (sample_subscription ''active''))) \<and>
   wf_store (subscriptions (subscribed_state ''incomplete'')) \<and>
   docs (subscriptions (snd (webHook to_millis
     (envelope ''customer.subscription.updated'' (sample_subscription ''active''))
     (subscribed_state ''incomplete'')))) =
     [(''o'', (sample_record ''incomplete'')\<lparr>subscriptionStatus := JStr ''active'',
                                             subscriptionType := JStr ''new''\<rparr>)]"
proof -
  let ?req = "envelope ''customer.subscription.updated'' (sample_subscription ''active'')"
  let ?st = "subscribed_state ''incomplete''"
  have t: "event_type ?req = JStr ''customer.subscription.updated''"
    by (simp add: event_type_def envelope_def)
  have o: "readable (event_object ?req)"
    by (simp add: event_object_def envelope_def sample_subscription_def readable_def)
  have m: "readable (field (event_object ?req) ''metadata'')"
    by (simp add: event_object_def envelope_def sample_subscription_def bare_subscription_def
        sample_metadata_def readable_def)
  have f: "findOne (incomplete_with (field (event_object ?req) ''id'')) (subscriptions ?st) =
      Some (''o'', sample_record ''incomplete'')"
    by (simp add: event_object_def envelope_def sample_subscription_def bare_subscription_def
        findOne_def incomplete_with_def subscribed_state_def checkout_state_def empty_state_def
        sample_record_def)
  have w: "wf_store (subscriptions ?st)"
    by (simp add: wf_store_def subscribed_state_def checkout_state_def empty_state_def)
  show ?thesis
    using t o w updated_incomplete_becomes_active [OF t o m f w, of to_millis]
    by (simp add: subscribed_state_def checkout_state_def empty_state_def)
qed

subsection \<open>Subscription update events that renew\<close>

lemma webHook_renews:
  assumes "event_type req = JStr ''customer.subscription.updated''"
    and "readable (event_object req)"
    and "readable (field (event_object req) ''metadata'')"
    and "findOne (incomplete_with (field (event_object req) ''id'')) (subscriptions st) = None"
    and "\<not> truthy (field (event_object req) ''cancel_at_period_end'')"
    and "wf_store (paymentLogs st)"
  shows "fst (webHook fmt req st) = Inr acknowledged"
    and "docs (subscriptions (snd (webHook fmt req st))) =
           docs (subscriptions st) @
           [(mk_oid (issued (subscriptions st)),
             \<lparr>userId = field (field (event_object req) ''metadata'') ''userId'',
              subscriptionId = field (event_object req) ''id'',
              subscriptionStatus = field (event_object req) ''status'',
              startDate = fmt (field (event_object req) ''created''),
              endDate = fmt (field (event_object req) ''current_period_end''),
              paymentStatus = JStr ''complete'',
              subscriptionType = JStr ''renewal'',
              customerId = field (event_object req) ''customer'',
              priceId = field (field (event_object req) ''metadata'') ''priceId''\<rparr>)]"
    and "\<exists>c. docs (paymentLogs (snd (webHook fmt req st))) =
           map (\<lambda>doc. if by_id (field (field (event_object req) ''metadata'') ''paymentLog'') doc
                       then (fst doc,
                             renewal_patch (JObj (body req)) (field (event_object req) ''status'')
                               (event_type req) (snd doc))
                       else doc)
               (docs (paymentLogs st) @ [(mk_oid (issued (paymentLogs st)), c)])"
proof -
  have data: "readable (field (JObj (body req)) ''data'')"
    using assms(2) unfolding event_object_def by (rule readable_field)
  note d = update_first_by_id_snoc [OF wf_store_distinct [OF assms(6)] wf_store_fresh [OF assms(6)]]
  show "fst (webHook fmt req st) = Inr acknowledged"
    using assms(1-5) data
    unfolding webHook_def Let_def event_type_def event_object_def attach_user_def log_event_def
      on_created_def on_updated_def handleCreateSubscription_def acknowledged_def respond_def
    by (simp add: runs types_updated done_with_def del: field.simps)
  show "docs (subscriptions (snd (webHook fmt req st))) =
           docs (subscriptions st) @
           [(mk_oid (issued (subscriptions st)),
             \<lparr>userId = field (field (event_object req) ''metadata'') ''userId'',
              subscriptionId = field (event_object req) ''id'',
              subscriptionStatus = field (event_object req) ''status'',
              startDate = fmt (field (event_object req) ''created''),
              endDate = fmt (field (event_object req) ''current_period_end''),
              paymentStatus = JStr ''complete'',
              subscriptionType = JStr ''renewal'',
              customerId = field (event_object req) ''customer'',
              priceId = field (field (event_object req) ''metadata'') ''priceId''\<rparr>)]"
    using assms(1-5) data
    unfolding webHook_def Let_def event_type_def event_object_def attach_user_def log_event_def
      on_created_def on_updated_def handleCreateSubscription_def acknowledged_def respond_def
    by (simp add: runs types_updated done_with_def del: field.simps)
  have "docs (paymentLogs (snd (webHook fmt req st))) =
           map (\<lambda>doc. if by_id (field (field (event_object req) ''metadata'') ''paymentLog'') doc
                       then (fst doc,
                             renewal_patch (JObj (body req)) (field (event_object req) ''status'')
                               (event_type req) (snd doc))
                       else doc)
               (docs (paymentLogs st) @
                [(mk_oid (issued (paymentLogs st)),
                  \<lparr>log_userId = field (field (event_object req) ''metadata'') ''userId'',
                   request = JUndefined, response = JObj (body req),
                   status = derived_status (event_object req), event = event_type req\<rparr>)])"
    using assms(1-5) data
    unfolding webHook_def Let_def event_type_def event_object_def attach_user_def log_event_def
      on_created_def on_updated_def handleCreateSubscription_def acknowledged_def respond_def
    by (simp add: runs types_updated done_with_def updateOne_def d del: field.simps map_append)
  then show "\<exists>c. docs (paymentLogs (snd (webHook fmt req st))) =
           map (\<lambda>doc. if by_id (field (field (event_object req) ''metadata'') ''paymentLog'') doc
                       then (fst doc,
                             renewal_patch (JObj (body req)) (field (event_object req) ''status'')
                               (event_type req) (snd doc))
                       else doc)
               (docs (paymentLogs st) @ [(mk_oid (issued (paymentLogs st)), c)])"
    by blast
qed

text \<open>
  The statement of the spec, that every update event that is no cancellation and matches
  no incomplete record creates a renewal record and updates the payment log it names,
  fails on an event whose subscription object has no \<^verbatim>\<open>metadata\<close>: line 136 throws
  and both stores stay as they were.
\<close>

theorem renewal_without_metadata_writes_nothing:
  "event_type (envelope ''customer.subscription.updated'' (JObj (bare_subscription ''active''))) =
     JStr ''customer.subscription.updated'' \<and>
   findOne
     (incomplete_with
        (field (event_object
           (envelope ''customer.subscription.updated'' (JObj (bare_subscription ''active''))))
           ''id''))
     (subscriptions checkout_state) = None \<and>
   truthy (field (event_object
     (envelope ''customer.subscription.updated'' (JObj (bare_subscription ''active''))))
     ''cancel_at_period_end'') = False \<and>
   webHook to_millis
     (envelope ''customer.subscription.updated'' (JObj (bare_subscription ''active'')))
     checkout_state =
     (Inl TypeError, checkout_state)"
proof -
  let ?req = "envelope ''customer.subscription.updated'' (JObj (bare_subscription ''active''))"
  have "\<not> derives_user ?req"
    by (simp add: derives_user_def event_type_def event_object_def envelope_def
        bare_subscription_def invoice_types_def metadata_types_def readable_def)
  then have "webHook to_millis ?req checkout_state = (Inl TypeError, checkout_state)"
    by (rule webHook_throws)
  then show ?thesis
    by (simp add: event_type_def event_object_def envelope_def bare_subscription_def
        checkout_state_def empty_state_def findOne_def)
qed

text \<open>
  C2, amended. For every \<^verbatim>\<open>customer.subscription.updated\<close> event whose subscription
  object carries a \<^verbatim>\<open>metadata\<close> value other than \<^verbatim>\<open>undefined\<close> and \<^verbatim>\<open>null\<close>,
  whose \<^verbatim>\<open>cancel_at_period_end\<close> is false or absent, and whose subscription id matches
  no record with status \<^verbatim>\<open>incomplete\<close>: the handler answers 200 with an empty
  body; exactly one subscription record is added, built from the event with type
  \<^verbatim>\<open>renewal\<close>; the payment logs are those of before and the one written for the
  event; and a payment log whose identifier is \<^verbatim>\<open>metadata.paymentLog\<close> holds the
  envelope, the event type, and the status \<^verbatim>\<open>success\<close> when the processor status
  is \<^verbatim>\<open>active\<close> and the processor status otherwise.
\<close>

theorem updated_renewal:
  assumes "event_type req = JStr ''customer.subscription.updated''"
    and "readable (event_object req)"
    and "readable (field (event_object req) ''metadata'')"
    and "findOne (incomplete_with (field (event_object req) ''id'')) (subscriptions st) = None"
    and "\<not> truthy (field (event_object req) ''cancel_at_period_end'')"
    and "wf_store (paymentLogs st)"
  shows "fst (webHook fmt req st) = Inr \<lparr>statusCode = 200, sent = JUndefined\<rparr> \<and>
         docs (subscriptions (snd (webHook fmt req st))) =
           docs (subscriptions st) @
           [(mk_oid (issued (subscriptions st)),
             \<lparr>userId = field (field (event_object req) ''metadata'') ''userId'',
              subscriptionId = field (event_object req) ''id'',
              subscriptionStatus = field (event_object req) ''status'',
              startDate = fmt (field (event_object req) ''created''),
              endDate = fmt (field (event_object req) ''current_period_end''),
              paymentStatus = JStr ''complete'',
              subscriptionType = JStr ''renewal'',
              customerId = field (event_object req) ''customer'',
              priceId = field (field (event_object req) ''metadata'') ''priceId''\<rparr>)] \<and>
         map fst (docs (paymentLogs (snd (webHook fmt req st)))) =
           map fst (docs (paymentLogs st)) @ [mk_oid (issued (paymentLogs st))] \<and>
         (\<forall>doc \<in> set (docs (paymentLogs (snd (webHook fmt req st)))).
            JStr (fst doc) = field (field (event_object req) ''metadata'') ''paymentLog'' \<longrightarrow>
            response (snd doc) = JObj (body req) \<and>
            status (snd doc) =
              (if field (event_object req) ''status'' = JStr ''active'' then JStr ''success''
               else field (event_object req) ''status'') \<and>
            event (snd doc) = event_type req)"
proof -
  note run = webHook_renews [OF assms, of fmt]
  from run(3) obtain c where logs:
    "docs (paymentLogs (snd (webHook fmt req st))) =
       map (\<lambda>doc. if by_id (field (field (event_object req) ''metadata'') ''paymentLog'') doc
                   then (fst doc,
                         renewal_patch (JObj (body req)) (field (event_object req) ''status'')
                           (event_type req) (snd doc))
                   else doc)
           (docs (paymentLogs st) @ [(mk_oid (issued (paymentLogs st)), c)])"
    by blast
  have ids: "map fst (docs (paymentLogs (snd (webHook fmt req st)))) =
      map fst (docs (paymentLogs st)) @ [mk_oid (issued (paymentLogs st))]"
    unfolding logs by (simp add: comp_def if_distrib [of fst] cong: if_cong)
  have patched: "\<forall>doc \<in> set (docs (paymentLogs (snd (webHook fmt req st)))).
            JStr (fst doc) = field (field (event_object req) ''metadata'') ''paymentLog'' \<longrightarrow>
            response (snd doc) = JObj (body req) \<and>
            status (snd doc) =
              (if field (event_object req) ''status'' = JStr ''active'' then JStr ''success''
               else field (event_object req) ''status'') \<and>
            event (snd doc) = event_type req"
    unfolding logs by (auto simp: by_id_def renewal_patch_def renewal_status_def)
  from run(1,2) ids patched show ?thesis
    by (simp add: acknowledged_def)
qed

text \<open>
  On the store left by a checkout, the update event of an active subscription adds the
  renewal record and a second payment log, and marks the log of the checkout a success.
\<close>

theorem updated_renewal_witness:
  "event_type (envelope ''customer.subscription.updated'' (sample_subscription ''active'')) =
     JStr ''customer.subscription.updated'' \<and>
   readable (field (event_object
     (envelope ''customer.subscription.updated'' (sample_subscription ''active''))) ''metadata'') \<and>
   truthy (field (event_object
     (envelope ''customer.subscription.updated'' (sample_subscription ''active'')))
     ''cancel_at_period_end'') = False \<and>
   wf_store (paymentLogs checkout_state) \<and>
   docs (subscriptions (snd (webHook to_millis
     (envelope ''customer.subscription.updated'' (sample_subscription ''active''))
     checkout_state))) =
     [(''o'', (sample_record ''active'')\<lparr>subscriptionType := JStr ''renewal''\<rparr>)] \<and>
   map fst (docs (paymentLogs (snd (webHook to_millis
     (envelope ''customer.subscription.updated'' (sample_subscription ''active''))
     checkout_state)))) = [''o'', ''oo''] \<and>
   status (snd (hd (docs (paymentLogs (snd (webHook to_millis
     (envelope ''customer.subscription.updated'' (sample_subscription ''active''))
     checkout_state)))))) = JStr ''success''"
proof -
  let ?req = "envelope ''customer.subscription.updated'' (sample_subscription ''active'')"
  have t: "event_type ?req = JStr ''customer.subscription.updated''"
    by (simp add: event_type_def envelope_def)
  have o: "readable (event_object ?req)"
    by (simp add: event_object_def envelope_def sample_subscription_def readable_def)
  have m: "readable (field (event_object ?req) ''metadata'')"
    by (simp add: event_object_def sample_defs readable_def)
  have f: "findOne (incomplete_with (field (event_object ?req) ''id''))
      (subscriptions checkout_state) = None"
    by (simp add: findOne_def sample_defs)
  have c: "\<not> truthy (field (event_object ?req) ''cancel_at_period_end'')"
    by (simp add: event_object_def sample_defs)
  have w: "wf_store (paymentLogs checkout_state)"
    by (simp add: wf_store_def sample_defs)
  note r = updated_renewal [OF t o m f c w, of to_millis]
  let ?logs = "docs (paymentLogs (snd (webHook to_millis ?req checkout_state)))"
  have ids: "map fst ?logs = [''o'', ''oo'']"
    using r by (simp add: sample_defs mk_oid_def)
  then obtain a b where ab: "?logs = [a, b]" "fst a = ''o''"
    by (auto simp: map_eq_Cons_conv)
  have "JStr (fst a) = field (field (event_object ?req) ''metadata'') ''paymentLog''"
    using ab(2) by (simp add: event_object_def sample_defs)
  moreover have "a \<in> set ?logs"
    using ab(1) by simp
  ultimately have "status (snd a) =
      (if field (event_object ?req) ''status'' = JStr ''active'' then JStr ''success''
       else field (event_object ?req) ''status'')"
    using r by blast
  then have s: "status (snd (hd ?logs)) = JStr ''success''"
    using ab(1) by (simp add: event_object_def sample_defs)
  have subs: "docs (subscriptions (snd (webHook to_millis ?req checkout_state))) =
      [(''o'', (sample_record ''active'')\<lparr>subscriptionType := JStr ''renewal''\<rparr>)]"
    using r by (simp add: event_object_def sample_defs mk_oid_def)
  from t m c w subs ids s show ?thesis
    by simp
qed

subsection \<open>Subscription creation events\<close>

text \<open>
  The statement of the spec, that every creation event creates a subscription record,
  fails on an event whose subscription object has \<^verbatim>\<open>null\<close> for \<^verbatim>\<open>metadata\<close>: line
  136 throws and no record is created.
\<close>

theorem created_without_metadata_records_nothing:
  "event_type (envelope ''customer.subscription.created''
     (JObj (bare_subscription ''trialing'' @ [(''metadata'', JNull)]))) =
     JStr ''customer.subscription.created'' \<and>
   webHook to_millis
     (envelope ''customer.subscription.created''
        (JObj (bare_subscription ''trialing'' @ [(''metadata'', JNull)])))
     empty_state =
     (Inl TypeError, empty_state) \<and>
   docs (subscriptions empty_state) = []"
proof -
  let ?req = "envelope ''customer.subscription.created''
     (JObj (bare_subscription ''trialing'' @ [(''metadata'', JNull)]))"
  have "\<not> derives_user ?req"
    by (simp add: derives_user_def event_type_def event_object_def envelope_def
        bare_subscription_def invoice_types_def metadata_types_def readable_def)
  then have "webHook to_millis ?req empty_state = (Inl TypeError, empty_state)"
    by (rule webHook_throws)
  then show ?thesis
    by (simp add: event_type_def envelope_def empty_state_def)
qed

text \<open>
  C3, amended. For every \<^verbatim>\<open>customer.subscription.created\<close> event whose subscription
  object carries a \<^verbatim>\<open>metadata\<close> value other than \<^verbatim>\<open>undefined\<close> and \<^verbatim>\<open>null\<close>,
  the handler answers 200 with an empty body and adds one subscription record: its status
  and its type are both the processor's status, its start and end dates are the
  conversions of the processor's \<^verbatim>\<open>created\<close> and \<^verbatim>\<open>current_period_end\<close>
  timestamps, and its payment status is \<^verbatim>\<open>complete\<close>.
\<close>

theorem created_records_subscription:
  assumes "event_type req = JStr ''customer.subscription.created''"
    and "readable (event_object req)"
    and "readable (field (event_object req) ''metadata'')"
  shows "fst (webHook fmt req st) = Inr \<lparr>statusCode = 200, sent = JUndefined\<rparr> \<and>
         docs (subscriptions (snd (webHook fmt req st))) =
           docs (subscriptions st) @
           [(mk_oid (issued (subscriptions st)),
             \<lparr>userId = field (field (event_object req) ''metadata'') ''userId'',
              subscriptionId = field (event_object req) ''id'',
              subscriptionStatus = field (event_object req) ''status'',
              startDate = fmt (field (event_object req) ''created''),
              endDate = fmt (field (event_object req) ''current_period_end''),
              paymentStatus = JStr ''complete'',
              subscriptionType = field (event_object req) ''status'',
              customerId = field (event_object req) ''customer'',
              priceId = field (field (event_object req) ''metadata'') ''priceId''\<rparr>)]"
proof -
  have data: "readable (field (JObj (body req)) ''data'')"
    using assms(2) unfolding event_object_def by (rule readable_field)
  show ?thesis
    using assms data
    unfolding webHook_def Let_def event_type_def event_object_def attach_user_def log_event_def
      on_created_def on_updated_def handleCreateSubscription_def respond_def
    by (simp add: runs types_created done_with_def del: field.simps)
qed

text \<open>A trialing subscription of user \<^verbatim>\<open>u1\<close> is recorded as trialing, of type trialing.\<close>

theorem created_records_subscription_witness:
  "event_type (envelope ''customer.subscription.created'' (sample_subscription ''trialing'')) =
     JStr ''customer.subscription.created'' \<and>
   readable (field (event_object
     (envelope ''customer.subscription.created'' (sample_subscription ''trialing'')))
     ''metadata'') \<and>
   docs (subscriptions (snd (webHook to_millis
     (envelope ''customer.subscription.created'' (sample_subscription ''trialing''))
     empty_state))) =
     [(''o'',
       \<lparr>userId = JStr ''u1'', subscriptionId = JStr ''sub_1'',
        subscriptionStatus = JStr ''trialing'', startDate = 100000, endDate = 200000,
        paymentStatus = JStr ''complete'', subscriptionType = JStr ''trialing'',
        customerId = JStr ''cus_1'', priceId = JStr ''price_1''\<rparr>)]"
proof -
  let ?req = "envelope ''customer.subscription.created'' (sample_subscription ''trialing'')"
  have t: "event_type ?req = JStr ''customer.subscription.created''"
    by (simp add: event_type_def envelope_def)
  have o: "readable (event_object ?req)"
    by (simp add: event_object_def envelope_def sample_subscription_def readable_def)
  have m: "readable (field (event_object ?req) ''metadata'')"
    by (simp add: event_object_def sample_defs readable_def)
  show ?thesis
    using t m created_records_subscription [OF t o m, of to_millis empty_state]
    by (simp add: event_object_def sample_defs mk_oid_def)
qed

subsection \<open>The payment log of an event, and the answer\<close>




text \<open>
  The statement of the spec, that every request is answered with 200, fails on a checkout
  session event whose session has \<^verbatim>\<open>null\<close> for \<^verbatim>\<open>metadata\<close>: line 136 throws and
  line 179 is not reached.
\<close>

theorem session_without_metadata_not_acknowledged:
  "fst (webHook to_millis
     (envelope ''checkout.session.completed''
        (JObj [(''id'', JStr ''cs_1''), (''status'', JStr ''complete''), (''metadata'', JNull)]))
     empty_state) = Inl TypeError"
proof -
  let ?req = "envelope ''checkout.session.completed''
     (JObj [(''id'', JStr ''cs_1''), (''status'', JStr ''complete''), (''metadata'', JNull)])"
  have "\<not> derives_user ?req"
    by (simp add: derives_user_def event_type_def event_object_def envelope_def
        invoice_types_def metadata_types_def readable_def)
  then show ?thesis
    by (simp add: webHook_throws)
qed

text \<open>
  C5, amended. The handler answers 200 with an empty body on every request on which the
  reads of lines 113 to 137 succeed (\<open>derives_user\<close>), whatever the event type and
  whatever was created or matched; on every other request it throws a
  \<^verbatim>\<open>TypeError\<close> and sends no answer of its own.
\<close>

theorem webHook_acknowledges:
  "fst (webHook fmt req st) =
     (if derives_user req then Inr \<lparr>statusCode = 200, sent = JUndefined\<rparr> else Inl TypeError)"
proof (cases "derives_user req")
  case True
  then obtain st' where "webHook fmt req st = (Inr acknowledged, st')"
    using webHook_runs [of req st fmt] by blast
  with True show ?thesis by (simp add: acknowledged_def)
next
  case False
  then show ?thesis by (simp add: webHook_throws)
qed

text \<open>An event of a type the handler does not know is answered all the same.\<close>

theorem webHook_acknowledges_witness:
  "derives_user (envelope ''customer.updated'' (JObj [(''id'', JStr ''cus_1'')])) \<and>
   fst (webHook to_millis (envelope ''customer.updated'' (JObj [(''id'', JStr ''cus_1'')]))
     empty_state) = Inr \<lparr>statusCode = 200, sent = JUndefined\<rparr>"
proof -
  let ?req = "envelope ''customer.updated'' (JObj [(''id'', JStr ''cus_1'')])"
  have d: "derives_user ?req"
    by (simp add: derives_user_def event_type_def event_object_def envelope_def
        invoice_types_def metadata_types_def readable_def)
  show ?thesis
    using d webHook_acknowledges [of to_millis ?req empty_state] by simp
qed

subsection \<open>What the activation leaves alone\<close>

text \<open>
  C9. When a \<^verbatim>\<open>customer.subscription.updated\<close> event matches a record with status
  \<^verbatim>\<open>incomplete\<close>, the handler leaves the store with the same identifiers in the same
  order, with the same \<^verbatim>\<open>userId\<close>, \<^verbatim>\<open>subscriptionId\<close>, \<^verbatim>\<open>startDate\<close>,
  \<^verbatim>\<open>endDate\<close>, \<^verbatim>\<open>paymentStatus\<close>, \<^verbatim>\<open>customerId\<close> and \<^verbatim>\<open>priceId\<close> in every
  record, and with every record other than the matched one, \<open>found\<close>, exactly as it
  was. The store hands out distinct identifiers.
\<close>

theorem activation_frame:
  assumes "event_type req = JStr ''customer.subscription.updated''"
    and "findOne (incomplete_with (field (event_object req) ''id'')) (subscriptions st) =
           Some found"
    and "wf_store (subscriptions st)"
  shows "map fst (docs (subscriptions (snd (webHook fmt req st)))) =
           map fst (docs (subscriptions st)) \<and>
         map (\<lambda>doc. userId (snd doc)) (docs (subscriptions (snd (webHook fmt req st)))) =
           map (\<lambda>doc. userId (snd doc)) (docs (subscriptions st)) \<and>
         map (\<lambda>doc. subscriptionId (snd doc)) (docs (subscriptions (snd (webHook fmt req st)))) =
           map (\<lambda>doc. subscriptionId (snd doc)) (docs (subscriptions st)) \<and>
         map (\<lambda>doc. startDate (snd doc)) (docs (subscriptions (snd (webHook fmt req st)))) =
           map (\<lambda>doc. startDate (snd doc)) (docs (subscriptions st)) \<and>
         map (\<lambda>doc. endDate (snd doc)) (docs (subscriptions (snd (webHook fmt req st)))) =
           map (\<lambda>doc. endDate (snd doc)) (docs (subscriptions st)) \<and>
         map (\<lambda>doc. paymentStatus (snd doc)) (docs (subscriptions (snd (webHook fmt req st)))) =
           map (\<lambda>doc. paymentStatus (snd doc)) (docs (subscriptions st)) \<and>
         map (\<lambda>doc. customerId (snd doc)) (docs (subscriptions (snd (webHook fmt req st)))) =
           map (\<lambda>doc. customerId (snd doc)) (docs (subscriptions st)) \<and>
         map (\<lambda>doc. priceId (snd doc)) (docs (subscriptions (snd (webHook fmt req st)))) =
           map (\<lambda>doc. priceId (snd doc)) (docs (subscriptions st)) \<and>
         filter (\<lambda>doc. fst doc \<noteq> fst found) (docs (subscriptions (snd (webHook fmt req st)))) =
           filter (\<lambda>doc. fst doc \<noteq> fst found) (docs (subscriptions st))"
proof (cases "derives_user req")
  case True
  with assms(1) have r: "readable (event_object req)"
    "readable (field (event_object req) ''metadata'')"
    by (simp_all add: derives_user_def types_updated)
  have run: "docs (subscriptions (snd (webHook fmt req st))) =
      map (\<lambda>doc. if fst doc = fst found then (fst doc, activate (snd doc)) else doc)
          (docs (subscriptions st))"
    using webHook_activates [OF assms(1) r assms(2,3), of fmt] by simp
  let ?g = "\<lambda>doc. if fst doc = fst found then (fst doc, activate (snd doc)) else doc"
  have frame: "map fst (map ?g xs) = map fst xs \<and>
         map (\<lambda>doc. userId (snd doc)) (map ?g xs) = map (\<lambda>doc. userId (snd doc)) xs \<and>
         map (\<lambda>doc. subscriptionId (snd doc)) (map ?g xs) =
           map (\<lambda>doc. subscriptionId (snd doc)) xs \<and>
         map (\<lambda>doc. startDate (snd doc)) (map ?g xs) = map (\<lambda>doc. startDate (snd doc)) xs \<and>
         map (\<lambda>doc. endDate (snd doc)) (map ?g xs) = map (\<lambda>doc. endDate (snd doc)) xs \<and>
         map (\<lambda>doc. paymentStatus (snd doc)) (map ?g xs) =
           map (\<lambda>doc. paymentStatus (snd doc)) xs \<and>
         map (\<lambda>doc. customerId (snd doc)) (map ?g xs) = map (\<lambda>doc. customerId (snd doc)) xs \<and>
         map (\<lambda>doc. priceId (snd doc)) (map ?g xs) = map (\<lambda>doc. priceId (snd doc)) xs \<and>
         filter (\<lambda>doc. fst doc \<noteq> fst found) (map ?g xs) =
           filter (\<lambda>doc. fst doc \<noteq> fst found) xs" for xs
    by (induction xs) (simp_all add: activate_def)
  show ?thesis
    unfolding run by (rule frame)
next
  case False
  then show ?thesis
    by (simp add: webHook_throws)
qed

text \<open>
  On a store of two records, the update event for \<^verbatim>\<open>sub_1\<close> leaves the record of
  \<^verbatim>\<open>sub_0\<close> and the dates of both as they were.
\<close>

theorem activation_frame_witness:
  "findOne
     (incomplete_with (field (event_object
        (envelope ''customer.subscription.updated'' (sample_subscription ''active''))) ''id''))
     (subscriptions two_records_state) = Some (''oo'', sample_record ''incomplete'') \<and>
   wf_store (subscriptions two_records_state) \<and>
   map fst (docs (subscriptions (snd (webHook to_millis
     (envelope ''customer.subscription.updated'' (sample_subscription ''active''))
     two_records_state)))) = [''o'', ''oo''] \<and>
   map (\<lambda>doc. endDate (snd doc)) (docs (subscriptions (snd (webHook to_millis
     (envelope ''customer.subscription.updated'' (sample_subscription ''active''))
     two_records_state)))) = [200000, 200000] \<and>
   filter (\<lambda>doc. fst doc \<noteq> ''oo'') (docs (subscriptions (snd (webHook to_millis
     (envelope ''customer.subscription.updated'' (sample_subscription ''active''))
     two_records_state)))) =
     [(''o'', (sample_record ''active'')\<lparr>subscriptionId := JStr ''sub_0''\<rparr>)]"
proof -
  let ?req = "envelope ''customer.subscription.updated'' (sample_subscription ''active'')"
  have t: "event_type ?req = JStr ''customer.subscription.updated''"
    by (simp add: event_type_def envelope_def)
  have f: "findOne (incomplete_with (field (event_object ?req) ''id''))
      (subscriptions two_records_state) = Some (''oo'', sample_record ''incomplete'')"
    by (simp add: event_object_def findOne_def incomplete_with_def sample_defs)
  have w: "wf_store (subscriptions two_records_state)"
    by (simp add: wf_store_def sample_defs)
  show ?thesis
    using f w activation_frame [OF t f w, of to_millis]
    by (simp add: sample_defs)
qed

subsection \<open>Checkout sessions\<close>



text \<open>
  The statement of the spec, that checkout fails with the conflict error for every user
  who holds a current subscription, fails on a request of such a user that lacks the two
  URLs: the check of line 31 comes first and the request fails with status 400.
\<close>

theorem subscribed_user_invalid_request_is_400:
  "holds_current ''u1'' 150000 (''o'', sample_record ''active'') \<and>
   (''o'', sample_record ''active'') \<in> set (docs (subscriptions (subscribed_state ''active''))) \<and>
   createCheckoutSession sample_answers 150000 \<lparr>body = [], user = ''u1''\<rparr>
     (subscribed_state ''active'') =
     (Inl (HttpError 400 ''Please pass required all parameters.''), subscribed_state ''active'')"
  by (simp add: createCheckoutSession_def Let_def or_empty_def throw_def holds_current_def
      current_def sample_defs)

text \<open>
  C7, amended. For every request that passes the validation of lines 31 to 38 (both URLs
  present, type empty or \<^verbatim>\<open>trial\<close>) from a user found in the user store who holds a
  subscription record with status \<^verbatim>\<open>active\<close> or \<^verbatim>\<open>trialing\<close> whose end date has
  not passed, checkout fails with status 401 and the message of the conflict. The user
  and subscription stores have been read; no payment log has been created and the
  processor has not been called.
\<close>

theorem checkout_conflict:
  assumes "truthy (field (JObj (body req)) ''successUrl'')"
    and "truthy (field (JObj (body req)) ''cancelUrl'')"
    and "\<not> truthy (field (JObj (body req)) ''type'') \<or>
         field (JObj (body req)) ''type'' = JStr ''trial''"
    and "user req \<in> set (users st)"
    and "doc \<in> set (docs (subscriptions st))"
    and "userId (snd doc) = JStr (user req)"
    and "subscriptionStatus (snd doc) = JStr ''active'' \<or>
         subscriptionStatus (snd doc) = JStr ''trialing''"
    and "now \<le> endDate (snd doc)"
  shows "createCheckoutSession answers now req st =
           (Inl (HttpError 401 ''Subscription already exist.''),
            st\<lparr>calls := calls st @ [UserFindById, SubscriptionFindOne]\<rparr>)"
proof -
  have "holds_current (user req) now doc"
    using assms(6-8) by (simp add: holds_current_def current_def)
  with assms(5) have "findOne (holds_current (user req) now) (subscriptions st) \<noteq> None"
    unfolding findOne_def by (auto simp: find_None_iff_no_match)
  with assms(1-4) show ?thesis
    unfolding createCheckoutSession_def Let_def
    by (auto simp add: truthy_or_empty or_empty_def throw_def User_findById_run
        Subscription_findOne_run logged_def simp del: field.simps)
qed

text \<open>A valid trial request of user \<^verbatim>\<open>u1\<close>, whose subscription runs until 200000.\<close>

theorem checkout_conflict_witness:
  "(''o'', sample_record ''trialing'') \<in> set (docs (subscriptions (subscribed_state ''trialing''))) \<and>
   (150000::int) \<le> endDate (sample_record ''trialing'') \<and>
   createCheckoutSession sample_answers 150000
     \<lparr>body = [(''successUrl'', JStr ''https://app.example/ok''),
              (''cancelUrl'', JStr ''https://app.example/no''), (''type'', JStr ''trial'')],
      user = ''u1''\<rparr> (subscribed_state ''trialing'') =
     (Inl (HttpError 401 ''Subscription already exist.''),
      (subscribed_state ''trialing'')\<lparr>calls := [UserFindById, SubscriptionFindOne]\<rparr>)"
proof -
  let ?req = "\<lparr>body = [(''successUrl'', JStr ''https://app.example/ok''),
              (''cancelUrl'', JStr ''https://app.example/no''), (''type'', JStr ''trial'')],
      user = ''u1''\<rparr>"
  let ?st = "subscribed_state ''trialing''"
  let ?doc = "(''o'', sample_record ''trialing'')"
  have s: "truthy (field (JObj (body ?req)) ''successUrl'')"
    and c: "truthy (field (JObj (body ?req)) ''cancelUrl'')"
    and t: "\<not> truthy (field (JObj (body ?req)) ''type'') \<or>
         field (JObj (body ?req)) ''type'' = JStr ''trial''"
    by simp_all
  have u: "user ?req \<in> set (users ?st)"
    by (simp add: sample_defs)
  have d: "?doc \<in> set (docs (subscriptions ?st))"
    by (simp add: sample_defs)
  have o: "userId (snd ?doc) = JStr (user ?req)"
    by (simp add: sample_defs)
  have a: "subscriptionStatus (snd ?doc) = JStr ''active'' \<or>
         subscriptionStatus (snd ?doc) = JStr ''trialing''"
    by (simp add: sample_defs)
  have e: "(150000::int) \<le> endDate (snd ?doc)"
    by (simp add: sample_defs)
  show ?thesis
    using d e checkout_conflict [OF s c t u d o a e, of sample_answers]
    by (simp add: sample_defs)
qed

subsection \<open>Cancelling a subscription\<close>

text \<open>
  C8. A \<^verbatim>\<open>cancelSubscription\<close> request carries a \<^verbatim>\<open>subscriptionId\<close>. When no
  record has that id, the caller as user, status \<^verbatim>\<open>active\<close> or \<^verbatim>\<open>trialing\<close> and an
  end date that has not passed, the handler fails with status 400 and the message of the
  missing subscription, having read the subscription store and called nothing else. When
  there is such a record, the handler asks the processor to update the subscription with
  \<^verbatim>\<open>cancel_at_period_end\<close> true and answers 200 with \<^verbatim>\<open>{success: true}\<close>; the two
  stores are as they were.
\<close>

theorem cancelSubscription_outcome:
  assumes "truthy (field (JObj (body req)) ''subscriptionId'')"
  shows "cancelSubscription now req st =
           (if \<exists>doc \<in> set (docs (subscriptions st)).
                 userId (snd doc) = JStr (user req) \<and>
                 subscriptionId (snd doc) = field (JObj (body req)) ''subscriptionId'' \<and>
                 (subscriptionStatus (snd doc) = JStr ''active'' \<or>
                  subscriptionStatus (snd doc) = JStr ''trialing'') \<and>
                 now \<le> endDate (snd doc)
            then (Inr \<lparr>statusCode = 200, sent = JObj [(''success'', JBool True)]\<rparr>,
                  st\<lparr>calls := calls st @
                       [SubscriptionFindOne,
                        SubscriptionsUpdate (field (JObj (body req)) ''subscriptionId'')
                          (JObj [(''cancel_at_period_end'', JBool True)])]\<rparr>)
            else (Inl (HttpError 400 ''Subscription does not exist.''),
                  st\<lparr>calls := calls st @ [SubscriptionFindOne]\<rparr>))"
proof -
  let ?sid = "field (JObj (body req)) ''subscriptionId''"
  have m: "(findOne (owned_current (user req) ?sid now) (subscriptions st) = None) =
      (\<not> (\<exists>doc \<in> set (docs (subscriptions st)).
                 userId (snd doc) = JStr (user req) \<and>
                 subscriptionId (snd doc) = ?sid \<and>
                 (subscriptionStatus (snd doc) = JStr ''active'' \<or>
                  subscriptionStatus (snd doc) = JStr ''trialing'') \<and>
                 now \<le> endDate (snd doc)))"
    by (simp add: findOne_def find_None_iff_no_match owned_current_def current_def)
  show ?thesis
    using assms unfolding cancelSubscription_def Let_def
    by (simp add: or_empty_def throw_def Subscription_findOne_run stripe_run respond_def
        done_with_def logged_def m del: field.simps)
qed

text \<open>
  User \<^verbatim>\<open>u2\<close> asks to cancel the subscription of user \<^verbatim>\<open>u1\<close> and is refused; user
  \<^verbatim>\<open>u1\<close> asks the same and the processor is called.
\<close>

theorem cancelSubscription_outcome_witness:
  "truthy (field (JObj [(''subscriptionId'', JStr ''sub_1'')]) ''subscriptionId'') \<and>
   cancelSubscription 150000 \<lparr>body = [(''subscriptionId'', JStr ''sub_1'')], user = ''u2''\<rparr>
     (subscribed_state ''active'') =
     (Inl (HttpError 400 ''Subscription does not exist.''),
      (subscribed_state ''active'')\<lparr>calls := [SubscriptionFindOne]\<rparr>) \<and>
   cancelSubscription 150000 \<lparr>body = [(''subscriptionId'', JStr ''sub_1'')], user = ''u1''\<rparr>
     (subscribed_state ''active'') =
     (Inr \<lparr>statusCode = 200, sent = JObj [(''success'', JBool True)]\<rparr>,
      (subscribed_state ''active'')
        \<lparr>calls := [SubscriptionFindOne,
                   SubscriptionsUpdate (JStr ''sub_1'')
                     (JObj [(''cancel_at_period_end'', JBool True)])]\<rparr>)"
proof -
  let ?r1 = "\<lparr>body = [(''subscriptionId'', JStr ''sub_1'')], user = ''u2''\<rparr>"
  let ?r2 = "\<lparr>body = [(''subscriptionId'', JStr ''sub_1'')], user = ''u1''\<rparr>"
  have h1: "truthy (field (JObj (body ?r1)) ''subscriptionId'')"
    and h2: "truthy (field (JObj (body ?r2)) ''subscriptionId'')"
    by simp_all
  show ?thesis
    using cancelSubscription_outcome [OF h1, of 150000 "subscribed_state ''active''"]
      cancelSubscription_outcome [OF h2, of 150000 "subscribed_state ''active''"]
    by (simp add: sample_defs)
qed

subsection \<open>Cancelling a payment\<close>

text \<open>
  C10. What \<^verbatim>\<open>cancelPayment\<close> does depends on the \<^verbatim>\<open>paymentId\<close> of the request
  and not on the caller: two requests with the same \<^verbatim>\<open>paymentId\<close> have the same
  outcome on the same state, whoever sends them. With a \<^verbatim>\<open>paymentId\<close> present, the
  payment log with that identifier gets status and event \<^verbatim>\<open>cancel\<close>, whatever its
  \<^verbatim>\<open>userId\<close>, and every other payment log stays as it was. The store hands out
  distinct identifiers.
\<close>

theorem cancelPayment_ignores_caller:
  assumes "field (JObj (body r1)) ''paymentId'' = field (JObj (body r2)) ''paymentId''"
  shows "cancelPayment r1 st = cancelPayment r2 st \<and>
         (truthy (field (JObj (body r1)) ''paymentId'') \<and> wf_store (paymentLogs st) \<longrightarrow>
          fst (cancelPayment r1 st) =
            Inr \<lparr>statusCode = 200, sent = JObj [(''success'', JBool True)]\<rparr> \<and>
          docs (paymentLogs (snd (cancelPayment r1 st))) =
            map (\<lambda>doc. if JStr (fst doc) = field (JObj (body r1)) ''paymentId''
                        then (fst doc, (snd doc)\<lparr>status := JStr ''cancel'',
                                                event := JStr ''cancel''\<rparr>)
                        else doc)
                (docs (paymentLogs st)))"
proof (intro conjI impI)
  show "cancelPayment r1 st = cancelPayment r2 st"
    using assms unfolding cancelPayment_def Let_def by (simp del: field.simps)
next
  assume a: "truthy (field (JObj (body r1)) ''paymentId'') \<and> wf_store (paymentLogs st)"
  then have d: "distinct (map fst (docs (paymentLogs st)))"
    by (simp add: wf_store_distinct)
  have run: "cancelPayment r1 st =
      (Inr \<lparr>statusCode = 200, sent = JObj [(''success'', JBool True)]\<rparr>,
       logged PaymentLogUpdateOne
         (st\<lparr>paymentLogs :=
               updateOne (by_id (field (JObj (body r1)) ''paymentId'')) cancel_patch
                 (paymentLogs st)\<rparr>))"
    using a unfolding cancelPayment_def Let_def
    by (simp add: or_empty_def PaymentLog_updateOne_run respond_def done_with_def
        del: field.simps)
  show "fst (cancelPayment r1 st) =
      Inr \<lparr>statusCode = 200, sent = JObj [(''success'', JBool True)]\<rparr>"
    by (simp add: run)
  show "docs (paymentLogs (snd (cancelPayment r1 st))) =
            map (\<lambda>doc. if JStr (fst doc) = field (JObj (body r1)) ''paymentId''
                        then (fst doc, (snd doc)\<lparr>status := JStr ''cancel'',
                                                event := JStr ''cancel''\<rparr>)
                        else doc)
                (docs (paymentLogs st))"
    unfolding run
    by (simp add: logged_fields updateOne_def update_first_by_id [OF d] by_id_def
        cancel_patch_def eq_commute [of "JStr _"] del: field.simps)
qed

text \<open>User \<^verbatim>\<open>u2\<close> cancels the payment log that user \<^verbatim>\<open>u1\<close> created at checkout.\<close>

theorem cancelPayment_ignores_caller_witness:
  "log_userId (snd (hd (docs (paymentLogs checkout_state)))) = JStr ''u1'' \<and>
   wf_store (paymentLogs checkout_state) \<and>
   cancelPayment \<lparr>body = [(''paymentId'', JStr ''o'')], user = ''u2''\<rparr> checkout_state =
     cancelPayment \<lparr>body = [(''paymentId'', JStr ''o'')], user = ''u1''\<rparr> checkout_state \<and>
   docs (paymentLogs (snd (cancelPayment \<lparr>body = [(''paymentId'', JStr ''o'')], user = ''u2''\<rparr>
     checkout_state))) =
     [(''o'', sample_log\<lparr>status := JStr ''cancel'', event := JStr ''cancel''\<rparr>)]"
proof -
  let ?r1 = "\<lparr>body = [(''paymentId'', JStr ''o'')], user = ''u2''\<rparr>"
  let ?r2 = "\<lparr>body = [(''paymentId'', JStr ''o'')], user = ''u1''\<rparr>"
  have h: "field (JObj (body ?r1)) ''paymentId'' = field (JObj (body ?r2)) ''paymentId''"
    by simp
  have w: "wf_store (paymentLogs checkout_state)"
    by (simp add: wf_store_def sample_defs)
  note c = cancelPayment_ignores_caller [OF h, of checkout_state]
  have "cancelPayment ?r1 checkout_state = cancelPayment ?r2 checkout_state"
    using c by (rule conjunct1)
  moreover have "docs (paymentLogs (snd (cancelPayment ?r1 checkout_state))) =
      [(''o'', sample_log\<lparr>status := JStr ''cancel'', event := JStr ''cancel''\<rparr>)]"
    using c [THEN conjunct2] w by (simp add: sample_defs)
  moreover have "log_userId (snd (hd (docs (paymentLogs checkout_state)))) = JStr ''u1''"
    by (simp add: sample_defs)
  ultimately show ?thesis
    using w by blast
qed


end
